theory Spec2Isabelle
  imports Complex_Main
begin

section \<open>Data model (nest.go, lines 16-48)\<close>

text \<open>
  The two structs of the program. Go's \<open>int\<close> is a 64-bit machine integer; the program
  only copies and compares temperatures and minutes, it never does arithmetic on them,
  so they are modelled as \<open>int\<close>.
\<close>

record NestConfig =
  Token :: string
  ThermostatID :: string
  Minutes :: int
  Output :: string
  LastOutput :: string
  Debug :: bool
  WebhookPost :: string
  WebhookGet :: string

record NestData =
  CurrentTemperature :: int
  HvacMode :: string
  IsCooling :: bool

text \<open>\<open>NestData{}\<close>, the zero value every failing call returns beside its error.\<close>

definition NestData_zero :: NestData where
  "NestData_zero = \<lparr>CurrentTemperature = 0, HvacMode = [], IsCooling = False\<rparr>"

text \<open>\<open>NestData{HvacMode: "unrestarted"}\<close>, the value both retry loops start from
  (lines 243 and 257).\<close>

definition unrestarted :: NestData where
  "unrestarted = \<lparr>CurrentTemperature = 0, HvacMode = ''unrestarted'', IsCooling = False\<rparr>"

section \<open>Outcomes, errors and the outside world\<close>

text \<open>
  A Go call either returns or panics; a panic that nobody recovers ends the process.
  The program never calls \<open>recover\<close>. \<open>Starved\<close> is the third possibility of the
  model only: the retry loops are fed from a finite script of answers of the remote
  service, and \<open>Starved\<close> means that the script ended while the loop was still retrying.
\<close>

datatype 'a outcome = Return 'a | Panic | Starved

fun bind_outcome :: "'a outcome \<Rightarrow> ('a \<Rightarrow> 'b outcome) \<Rightarrow> 'b outcome" where
  "bind_outcome (Return x) f = f x"
| "bind_outcome Panic f = Panic"
| "bind_outcome Starved f = Starved"

text \<open>
  The error values the program builds with \<open>errors.New\<close>, one constructor for each
  message text. In the words of the specification, \<open>CouldNotCommunicate\<close> is the
  transport error, \<open>ProblemGettingAnswer\<close> the protocol error (status other than 200),
  and \<open>CouldNotProcessJSON\<close> and \<open>CouldNotFindThermostat\<close> are the schema errors.
\<close>

datatype error =
    CouldNotCreateRequest
  | CouldNotCommunicate
  | ProblemGettingAnswer
  | CouldNotReadResponse
  | CouldNotCreateDump
  | CouldNotProcessJSON
  | CouldNotFindThermostat
  | CouldNotCreateWebhook
  | ProblemWithWebhook

text \<open>
  What \<open>json.Unmarshal\<close> stores in an \<open>interface{}\<close>: \<open>nil\<close>, \<open>bool\<close>, \<open>float64\<close>,
  \<open>string\<close>, \<open>[]interface{}\<close> or \<open>map[string]interface{}\<close>. A number is kept as the
  rational it denotes; an object is the association list of its decoded map, read with
  \<open>map_of\<close>.
\<close>

datatype json =
    JNull
  | JBool bool
  | JNumber rat
  | JString string
  | JArray "json list"
  | JObject "(string \<times> json) list"

text \<open>
  The answer of one HTTP exchange, as \<open>http.NewRequest\<close> and \<open>client.Do\<close> report it:
  \<^item> \<open>BadRequest\<close>: \<open>http.NewRequest\<close> returned an error, nothing was sent;
  \<^item> \<open>NoResponse\<close>: \<open>client.Do\<close> returned \<open>(nil, err)\<close>, the network failure;
  \<^item> \<open>RedirectStopped\<close>: \<open>client.Do\<close> returned a response together with an error,
    which happens only when the redirect policy of \<open>nestClient\<close> refuses;
  \<^item> \<open>Response status body\<close>: \<open>client.Do\<close> returned \<open>(resp, nil)\<close>.
  The body is unreadable (\<open>ioutil.ReadAll\<close> fails), or its bytes are read and
  \<open>json.Unmarshal\<close> either fails (\<open>None\<close>) or yields a value.
\<close>

datatype body = Unreadable | Bytes "json option"

datatype http_reply = BadRequest | NoResponse | RedirectStopped | Response int body

text \<open>The world of one \<open>nestGet\<close> call: the answer to the GET, and whether the debug
  dump file can be created.\<close>

record get_world =
  reply :: http_reply
  dump_ok :: bool

text \<open>The world of one \<open>nestPut\<close> call: the answer to the PUT and the world of the
  confirming \<open>nestGet\<close>.\<close>

record put_world =
  put_reply :: http_reply
  confirm :: get_world

section \<open>The API client (lines 304-387)\<close>

text \<open>
  The single-value type assertions \<open>x.(T)\<close> of lines 338-351. Indexing a Go map with a
  missing key gives the \<open>nil\<close> interface, here \<open>None\<close>; asserting a type on a value of
  another type, \<open>nil\<close> included, panics.
\<close>

fun assert_object :: "json option \<Rightarrow> (string \<times> json) list option outcome" where
  "assert_object (Some (JObject kvs)) = Return (Some kvs)"
| "assert_object _ = Panic"

fun assert_float64 :: "json option \<Rightarrow> rat outcome" where
  "assert_float64 (Some (JNumber f)) = Return f"
| "assert_float64 _ = Panic"

fun assert_string :: "json option \<Rightarrow> string outcome" where
  "assert_string (Some (JString s)) = Return s"
| "assert_string _ = Panic"

text \<open>
  \<open>int(f)\<close> on a \<open>float64\<close> drops the fraction (rounds towards zero). When the result
  does not fit Go's 64-bit \<open>int\<close> the language leaves the value to the implementation;
  the amd64 compiler gives the least \<open>int64\<close>, and so does the model.
\<close>

definition int_of_float64 :: "rat \<Rightarrow> int" where
  "int_of_float64 f =
     (let truncated = (if 0 \<le> f then \<lfloor>f\<rfloor> else \<lceil>f\<rceil>)
      in if - (2 ^ 63) \<le> truncated \<and> truncated < 2 ^ 63 then truncated else - (2 ^ 63))"

text \<open>
  The loop of lines 341-344. The navigator is \<open>None\<close> when the Go map is \<open>nil\<close>; the
  second component is the part of \<open>dataPath\<close> not yet walked, so \<open>i < len(dataPath)\<close>
  is "the remaining path is not empty".
\<close>

fun navigate ::
  "(string \<times> json) list option \<Rightarrow> string list \<Rightarrow>
   ((string \<times> json) list option \<times> string list) outcome" where
  "navigate None path = Return (None, path)"
| "navigate (Some m) [] = Return (Some m, [])"
| "navigate (Some m) (key # path) =
     bind_outcome (assert_object (map_of m key)) (\<lambda>dataNavigator. navigate dataNavigator path)"

text \<open>Lines 338-352: from the decoded body to the sample.\<close>

definition read_thermostat :: "NestConfig \<Rightarrow> json \<Rightarrow> (NestData \<times> error option) outcome" where
  "read_thermostat config rawData =
     bind_outcome (assert_object (Some rawData)) (\<lambda>start.
     bind_outcome (navigate start [''devices'', ''thermostats'', ThermostatID config])
       (\<lambda>(dataNavigator, remaining).
          case dataNavigator of
            None \<Rightarrow> Return (NestData_zero, Some CouldNotFindThermostat)
          | Some m \<Rightarrow>
              if remaining \<noteq> [] then Return (NestData_zero, Some CouldNotFindThermostat)
              else
                bind_outcome (assert_float64 (map_of m ''ambient_temperature_f'')) (\<lambda>f.
                bind_outcome (assert_string (map_of m ''hvac_mode'')) (\<lambda>mode.
                bind_outcome (assert_string (map_of m ''hvac_state'')) (\<lambda>state.
                  Return (\<lparr>CurrentTemperature = int_of_float64 f,
                           HvacMode = mode,
                           IsCooling = (state = ''cooling'')\<rparr>, None))))))"

text \<open>\<open>nestGet\<close>, lines 304-353. The result is Go's pair \<open>(NestData, error)\<close>.\<close>

definition nestGet :: "NestConfig \<Rightarrow> get_world \<Rightarrow> (NestData \<times> error option) outcome" where
  "nestGet config w =
     (case reply w of
        BadRequest \<Rightarrow> Return (NestData_zero, Some CouldNotCreateRequest)
      | NoResponse \<Rightarrow> Return (NestData_zero, Some CouldNotCommunicate)
      | RedirectStopped \<Rightarrow> Return (NestData_zero, Some CouldNotCommunicate)
      | Response status b \<Rightarrow>
          if status \<noteq> 200 then Return (NestData_zero, Some ProblemGettingAnswer)
          else
            (case b of
               Unreadable \<Rightarrow> Return (NestData_zero, Some CouldNotReadResponse)
             | Bytes decoded \<Rightarrow>
                 if Debug config = True \<and> \<not> dump_ok w
                 then Return (NestData_zero, Some CouldNotCreateDump)
                 else
                   (case decoded of
                      None \<Rightarrow> Return (NestData_zero, Some CouldNotProcessJSON)
                    | Some rawData \<Rightarrow> read_thermostat config rawData)))"

text \<open>
  \<open>nestPut\<close>, lines 355-373. The mode travels in the payload to the remote service and
  the answer is the world's. Line 364 runs \<open>defer resp.Body.Close()\<close> before line 365
  looks at \<open>err\<close>: evaluating \<open>resp.Body\<close> on the \<open>nil\<close> response of a network failure
  is a nil pointer dereference.
\<close>

definition nestPut :: "NestConfig \<Rightarrow> string \<Rightarrow> put_world \<Rightarrow> (NestData \<times> error option) outcome" where
  "nestPut config hvacMode w =
     (case put_reply w of
        BadRequest \<Rightarrow> Return (NestData_zero, Some CouldNotCreateRequest)
      | NoResponse \<Rightarrow> Panic
      | RedirectStopped \<Rightarrow> Return (NestData_zero, Some CouldNotCommunicate)
      | Response status b \<Rightarrow>
          if status \<noteq> 200 then Return (NestData_zero, Some ProblemGettingAnswer)
          else nestGet config (confirm w))"

text \<open>\<open>webhook\<close>, lines 375-387, with the same \<open>defer\<close> before the error check
  (line 382).\<close>

datatype hook = POST | GET

definition webhook :: "hook \<Rightarrow> string \<Rightarrow> http_reply \<Rightarrow> error option outcome" where
  "webhook method url r =
     (case r of
        BadRequest \<Rightarrow> Return (Some CouldNotCreateWebhook)
      | NoResponse \<Rightarrow> Panic
      | RedirectStopped \<Rightarrow> Return (Some ProblemWithWebhook)
      | Response status b \<Rightarrow>
          if status \<noteq> 200 then Return (Some ProblemWithWebhook) else Return None)"

section \<open>The poll loop and the recovery sequence (lines 192-285)\<close>

text \<open>
  The records the loop hands to \<open>outputFile.WriteString\<close> and the messages it prints
  with \<open>printError\<close>, without their timestamps. The log target itself (creating,
  reopening, syncing and closing the file) is outside the model: a record is logged
  when the loop writes it.
\<close>

datatype phase = TurnOff | TurnOn

datatype log_entry =
    Header
  | SampleRow bool int
  | GetError error
  | Restarting
  | HookPerformed hook
  | PutError phase error
  | Waiting phase
  | Turned phase

datatype message =
    ErrorInGet error
  | ErrorTurning phase error
  | WaitingOn phase
  | ProblemWithHook hook error

text \<open>
  The state of the loop: the two variables carried across ticks (lines 200-201), the
  records written to the output file, the messages printed, and the modes handed to
  \<open>nestPut\<close> so far, one entry for each write attempt.
\<close>

record state =
  lastTemp :: int
  lastIsCooling :: bool
  outputFile :: "log_entry list"
  console :: "message list"
  writes :: "string list"

text \<open>The state in which line 202 is first reached: the header row written (line 197),
  the two variables seeded (lines 200-201).\<close>

definition initial :: state where
  "initial = \<lparr>lastTemp = 0, lastIsCooling = False, outputFile = [Header], console = [],
               writes = []\<rparr>"

text \<open>The guard of the recovery sequence, the two nested tests of lines 216-217.\<close>

definition restart_needed :: "bool \<Rightarrow> int \<Rightarrow> NestData \<Rightarrow> bool" where
  "restart_needed lastIsCooling' lastTemp' thermostatData =
     (if lastIsCooling' = True \<and> IsCooling thermostatData = True
      then (if lastTemp' < CurrentTemperature thermostatData then True else False)
      else False)"

text \<open>
  The two retry loops, lines 245-256 (\<open>TurnOff\<close>, always asking for \<open>"off"\<close>) and
  lines 258-269 (\<open>TurnOn\<close>, asking for the mode of the sample that showed the fault).
  They differ in the requested mode and in the texts they log, so one function with
  the phase as a parameter stands for both.

  \<open>logged\<close> is the \<open>if\<close> / \<open>else if\<close> / \<open>else\<close> chain inside the loop (lines 247-255
  and 260-268), which only writes records and messages.
\<close>

definition logged :: "phase \<Rightarrow> string \<Rightarrow> NestData \<Rightarrow> error option \<Rightarrow> state \<Rightarrow> state" where
  "logged ph hvacMode answer err st =
     (case err of
        Some e \<Rightarrow>
          st\<lparr>outputFile := outputFile st @ [PutError ph e],
             console := console st @ [ErrorTurning ph e]\<rparr>
      | None \<Rightarrow>
          if HvacMode answer \<noteq> hvacMode
          then st\<lparr>outputFile := outputFile st @ [Waiting ph],
                  console := console st @ [WaitingOn ph]\<rparr>
          else st\<lparr>outputFile := outputFile st @ [Turned ph]\<rparr>)"

text \<open>
  Each pass of the loop tests the mode of the last \<open>NestData\<close>, calls \<open>nestPut\<close> on the
  next answer of the script and logs. The answers not used are returned with the last
  \<open>NestData\<close> and the state.
\<close>

fun retry_loop ::
  "phase \<Rightarrow> NestConfig \<Rightarrow> string \<Rightarrow> NestData \<Rightarrow> put_world list \<Rightarrow> state \<Rightarrow>
   (NestData \<times> put_world list \<times> state) outcome" where
  "retry_loop ph config hvacMode current [] st =
     (if HvacMode current \<noteq> hvacMode then Starved else Return (current, [], st))"
| "retry_loop ph config hvacMode current (w # ws) st =
     (if HvacMode current \<noteq> hvacMode then
        bind_outcome (nestPut config hvacMode w) (\<lambda>(answer, err).
          retry_loop ph config hvacMode answer ws
            (logged ph hvacMode answer err (st\<lparr>writes := writes st @ [hvacMode]\<rparr>)))
      else Return (current, w # ws, st))"

text \<open>
  The body of the goroutine started at line 221 (lines 222-241). It runs beside the
  retry loops, so its records and messages are kept apart from those of the main
  goroutine: where they land between the others is not determined. A panic inside it
  is not recovered and ends the whole process, as any unrecovered panic does.
\<close>

definition notify_one ::
  "hook \<Rightarrow> string \<Rightarrow> http_reply \<Rightarrow> (log_entry list \<times> message list) outcome" where
  "notify_one method url r =
     (if url \<noteq> [] then
        bind_outcome (webhook method url r) (\<lambda>err.
          case err of
            Some e \<Rightarrow> Return ([], [ProblemWithHook method e])
          | None \<Rightarrow> Return ([HookPerformed method], []))
      else Return ([], []))"

definition notify ::
  "NestConfig \<Rightarrow> http_reply \<Rightarrow> http_reply \<Rightarrow> (log_entry list \<times> message list) outcome" where
  "notify config rp rg =
     bind_outcome (notify_one POST (WebhookPost config) rp) (\<lambda>(f1, c1).
     bind_outcome (notify_one GET (WebhookGet config) rg) (\<lambda>(f2, c2).
       Return (f1 @ f2, c1 @ c2)))"

text \<open>The world of one tick: the answer to the read, the script of answers to the
  writes of a recovery, and the answers to the two webhooks.\<close>

record tick_world =
  get :: get_world
  puts :: "put_world list"
  hook_post :: http_reply
  hook_get :: http_reply

text \<open>Lines 218-271 in the main goroutine: the recovery sequence.\<close>

definition recovery :: "NestConfig \<Rightarrow> NestData \<Rightarrow> put_world list \<Rightarrow> state \<Rightarrow> state outcome" where
  "recovery config thermostatData script st =
     bind_outcome
       (retry_loop TurnOff config ''off'' unrestarted script
          (st\<lparr>outputFile := outputFile st @ [Restarting]\<rparr>))
       (\<lambda>(shutoffData, script', st').
     bind_outcome
       (retry_loop TurnOn config (HvacMode thermostatData) unrestarted script' st')
       (\<lambda>(restartData, script'', st'').
          Return (st''\<lparr>lastIsCooling := IsCooling restartData,
                       lastTemp := CurrentTemperature restartData\<rparr>)))"

text \<open>
  One pass of the \<open>for true\<close> loop, lines 207-280, in the main goroutine. The two
  \<open>else\<close> branches of lines 272-279 make the same two assignments.
\<close>

definition tick :: "NestConfig \<Rightarrow> tick_world \<Rightarrow> state \<Rightarrow> state outcome" where
  "tick config w st =
     bind_outcome (nestGet config (get w)) (\<lambda>(thermostatData, err).
       case err of
         Some e \<Rightarrow>
           Return (st\<lparr>outputFile := outputFile st @ [GetError e],
                      console := console st @ [ErrorInGet e]\<rparr>)
       | None \<Rightarrow>
           let st' = st\<lparr>outputFile := outputFile st @
                          [SampleRow (IsCooling thermostatData)
                                     (CurrentTemperature thermostatData)]\<rparr>
           in if restart_needed (lastIsCooling st) (lastTemp st) thermostatData
              then recovery config thermostatData (puts w) st'
              else Return (st'\<lparr>lastIsCooling := IsCooling thermostatData,
                               lastTemp := CurrentTemperature thermostatData\<rparr>))"

text \<open>
  The goroutine a tick starts: none when the tick does not reach line 221, otherwise
  the outcome of its body.
\<close>

definition spawned ::
  "NestConfig \<Rightarrow> tick_world \<Rightarrow> state \<Rightarrow> (log_entry list \<times> message list) outcome option" where
  "spawned config w st =
     (case nestGet config (get w) of
        Return (thermostatData, None) \<Rightarrow>
          if restart_needed (lastIsCooling st) (lastTemp st) thermostatData
          then Some (notify config (hook_post w) (hook_get w))
          else None
      | _ \<Rightarrow> None)"

text \<open>The process dies in a tick when the main goroutine or the goroutine it started
  panics.\<close>

definition crashes :: "NestConfig \<Rightarrow> tick_world \<Rightarrow> state \<Rightarrow> bool" where
  "crashes config w st = (tick config w st = Panic \<or> spawned config w st = Some Panic)"

text \<open>
  The loop of line 202 never ends by itself. \<open>ticks\<close> runs it over a finite script of
  worlds, one for each pass, and gives the state reached after the last of them.
\<close>

fun ticks :: "NestConfig \<Rightarrow> tick_world list \<Rightarrow> state \<Rightarrow> state outcome" where
  "ticks config [] st = Return st"
| "ticks config (w # ws) st = bind_outcome (tick config w st) (ticks config ws)"

definition loop :: "NestConfig \<Rightarrow> tick_world list \<Rightarrow> state outcome" where
  "loop config ws = ticks config ws initial"

section \<open>Start-up (lines 50-190)\<close>

text \<open>
  What \<open>main\<close> asks of the Go library and of the file system:
  \<open>strings.ToLower\<close>, \<open>strconv.Atoi\<close> (\<open>None\<close> when it returns an error),
  \<open>url.ParseRequestURI\<close> (true when it returns no error), and reading a file and
  decoding it with \<open>json.Unmarshal\<close> into a zero \<open>NestConfig\<close> (\<open>None\<close> when either
  step fails).
\<close>

record host =
  ToLower :: "string \<Rightarrow> string"
  Atoi :: "string \<Rightarrow> int option"
  ParseRequestURI :: "string \<Rightarrow> bool"
  ReadConfig :: "string \<Rightarrow> NestConfig option"

text \<open>\<open>strings.ToLower\<close> on ASCII text, for concrete runs.\<close>

definition ascii_lower :: "string \<Rightarrow> string" where
  "ascii_lower =
     map (\<lambda>c. if (65::nat) \<le> of_char c \<and> of_char c \<le> (90::nat)
              then char_of (of_char c + (32::nat)) else c)"

text \<open>The constants of type \<open>NestCommand\<close>, a string type (lines 35-43).\<close>

definition ThermostatID_cmd :: string where "ThermostatID_cmd = ''thermostatID''"
definition Token_cmd :: string where "Token_cmd = ''token''"
definition Minutes_cmd :: string where "Minutes_cmd = ''minute''"
definition Config_cmd :: string where "Config_cmd = ''config''"
definition Output_cmd :: string where "Output_cmd = ''output''"
definition WebhookPost_cmd :: string where "WebhookPost_cmd = ''webhook-post''"
definition WebhookGet_cmd :: string where "WebhookGet_cmd = ''webhook-get''"

text \<open>The keys of \<open>allowedSingles\<close> (line 52) and the table \<open>argTranslate\<close> (lines
  66-74); reading a Go map of strings at a missing key gives the empty string.\<close>

definition allowedSingles :: "string list" where
  "allowedSingles = [''help'', ''-h'', ''--help'']"

definition argTranslate :: "string \<Rightarrow> string" where
  "argTranslate argName =
     (case map_of
        [(''--thermostat'', ThermostatID_cmd), (''-id'', ThermostatID_cmd),
         (''--token'', Token_cmd), (''-t'', Token_cmd),
         (''--minute'', Minutes_cmd), (''-m'', Minutes_cmd),
         (''--config'', Config_cmd), (''-c'', Config_cmd),
         (''--output'', Output_cmd), (''-o'', Output_cmd),
         (''--webhook-post'', WebhookPost_cmd), (''-wp'', WebhookPost_cmd),
         (''--webhook-get'', WebhookGet_cmd), (''-wg'', WebhookGet_cmd)] argName of
        None \<Rightarrow> []
      | Some command \<Rightarrow> command)"

text \<open>
  How the process ends when it does not reach the poll loop: \<open>main\<close> returns, which
  gives exit status 0, or \<open>os.Exit\<close> is called with a status.
\<close>

datatype ending = ReturnFromMain | OsExit int

fun exit_status :: "ending \<Rightarrow> int" where
  "exit_status ReturnFromMain = 0"
| "exit_status (OsExit code) = code"

text \<open>A run of \<open>main\<close> prints its messages and ends, or calls \<open>loop\<close> with the final
  configuration (line 135).\<close>

datatype run = Ended "string list" ending | Looping NestConfig

text \<open>\<open>printError\<close> (lines 157-163) prints and returns; the text of \<open>err\<close> and the line
  end that \<open>Printf\<close> adds are left out, a line end inside the message is kept.
  \<open>printErrorExit\<close> (lines 165-168) prints and calls \<open>os.Exit(1)\<close>.\<close>

definition printError :: "string \<Rightarrow> string list" where
  "printError message = [message]"

definition printErrorExit :: "string \<Rightarrow> run" where
  "printErrorExit message = Ended (printError message) (OsExit 1)"

definition unexpectedArgument :: "string list" where
  "unexpectedArgument = printError
     (''Unrecognized or unexpected parameter. Please check your inputs or call '--help' for help''
        @ [CHR 0x0A])"

definition expectedArguments :: "string list" where
  "expectedArguments = printError
     (''Expected at least one parameter. Please add arguments or call '--help' for help''
        @ [CHR 0x0A])"

definition displayHelp :: "string list" where
  "displayHelp =
     [''--help, -h, help            display this help menu'',
      ''--thermostat -id [id]       supply the thermostat id'',
      ''--token -t [auth token]     supply the OAuth token'',
      ''--minute -m [1-99]          set sampling time in minutes'',
      ''--config -c [config file]   location of config file'',
      ''--output -o [output file]   where to save the output .tsv file'',
      ''--webhook-post -wp [url]    webhook post to be fired when system restart begins'',
      ''--webhook-get -wg [url]     webhook get to be fired when system restart begins'']"

text \<open>The loop of lines 76-83 over the arguments after the program name, two at a
  time; \<open>None\<close> is the early return of line 80.\<close>

fun parse_args ::
  "host \<Rightarrow> string list \<Rightarrow> (string \<Rightarrow> string) \<Rightarrow> (string \<Rightarrow> string) option" where
  "parse_args h (name # val # rest) argMap =
     (let argName = ToLower h name in
      if argName \<in> set allowedSingles \<or> argTranslate argName = []
      then None
      else parse_args h rest (argMap(argTranslate argName := val)))"
| "parse_args h rest argMap = Some argMap"

text \<open>\<open>processConfig\<close>, lines 170-190.\<close>

definition processConfig :: "host \<Rightarrow> string \<Rightarrow> NestConfig \<Rightarrow> NestConfig option" where
  "processConfig h fileName config =
     (case ReadConfig h fileName of
        None \<Rightarrow> None
      | Some configOverride \<Rightarrow>
          (let c1 = (if Minutes configOverride < 1
                     then configOverride\<lparr>Minutes := Minutes config\<rparr> else configOverride);
               c2 = (if Output c1 = [] then c1\<lparr>Output := Output config\<rparr> else c1);
               c3 = (if LastOutput c2 = []
                     then c2\<lparr>LastOutput := LastOutput config\<rparr> else c2)
           in Some c3))"

text \<open>Lines 84-134: the settings are taken one after the other; \<open>Inl\<close> carries the
  message of the \<open>printError\<close> that comes before a \<open>return\<close>.\<close>

definition settings :: "host \<Rightarrow> (string \<Rightarrow> string) \<Rightarrow> NestConfig \<Rightarrow> string + NestConfig" where
  "settings h argMap config0 =
     (case (if argMap Config_cmd \<noteq> []
            then (case processConfig h (argMap Config_cmd) config0 of
                    None \<Rightarrow> Inl ''Error reading config file''
                  | Some configOverride \<Rightarrow> Inr configOverride)
            else Inr config0) of
        Inl m \<Rightarrow> Inl m
      | Inr c1 \<Rightarrow>
     (case (if argMap ThermostatID_cmd \<noteq> []
            then Inr (c1\<lparr>ThermostatID := argMap ThermostatID_cmd\<rparr>)
            else if ThermostatID c1 = [] then Inl ''Must provide a thermostat ID''
            else Inr c1) of
        Inl m \<Rightarrow> Inl m
      | Inr c2 \<Rightarrow>
     (case (if argMap Token_cmd \<noteq> []
            then Inr (c2\<lparr>Token := argMap Token_cmd\<rparr>)
            else if Token c2 = [] then Inl ''Must provide a token''
            else Inr c2) of
        Inl m \<Rightarrow> Inl m
      | Inr c3 \<Rightarrow>
     (case (if argMap Minutes_cmd \<noteq> []
            then (case Atoi h (argMap Minutes_cmd) of
                    None \<Rightarrow> Inl ''minutes parameter is not a parseable number''
                  | Some minutesInt \<Rightarrow>
                      if minutesInt < 1 then Inl ''minutes parameter must be at least 1''
                      else Inr (c3\<lparr>Minutes := minutesInt\<rparr>))
            else Inr c3) of
        Inl m \<Rightarrow> Inl m
      | Inr c4 \<Rightarrow>
     (let c5 = (if argMap Output_cmd \<noteq> [] then c4\<lparr>Output := argMap Output_cmd\<rparr> else c4)
      in
     (case (if argMap WebhookPost_cmd \<noteq> []
            then (if \<not> ParseRequestURI h (argMap WebhookPost_cmd)
                  then Inl ''invalid webhook-post url''
                  else Inr (c5\<lparr>WebhookPost := argMap WebhookPost_cmd\<rparr>))
            else Inr c5) of
        Inl m \<Rightarrow> Inl m
      | Inr c6 \<Rightarrow>
     (if argMap WebhookGet_cmd \<noteq> []
      then (if \<not> ParseRequestURI h (argMap WebhookGet_cmd)
            then Inl ''invalid webhook-get url''
            else Inr (c6\<lparr>WebhookGet := argMap WebhookGet_cmd\<rparr>))
      else Inr c6)))))))"

text \<open>\<open>main\<close>, lines 50-136, on the argument vector \<open>os.Args\<close>.\<close>

definition default_config :: NestConfig where
  "default_config =
     \<lparr>Token = [], ThermostatID = [], Minutes = 10, Output = ''nest.tsv'',
      LastOutput = ''nest_last.json'', Debug = False, WebhookPost = [], WebhookGet = []\<rparr>"

definition main :: "host \<Rightarrow> string list \<Rightarrow> run" where
  "main h args =
     (if length args = 1 then Ended expectedArguments ReturnFromMain
      else if length args = 2 then
        (if ToLower h (args ! 1) \<notin> set allowedSingles
         then Ended unexpectedArgument ReturnFromMain
         else Ended displayHelp ReturnFromMain)
      else
        (case parse_args h (drop 1 args) (\<lambda>command. []) of
           None \<Rightarrow> Ended unexpectedArgument ReturnFromMain
         | Some argMap \<Rightarrow>
             (case settings h argMap default_config of
                Inl message \<Rightarrow> Ended (printError message) ReturnFromMain
              | Inr config \<Rightarrow> Looping config)))"

section \<open>Concrete inputs\<close>

text \<open>A configuration with a POST webhook, and the answers of a well-behaved remote
  service for the thermostat \<open>abc\<close>.\<close>

definition example_config :: NestConfig where
  "example_config =
     \<lparr>Token = ''secret'', ThermostatID = ''abc'', Minutes = 10, Output = ''nest.tsv'',
      LastOutput = ''nest_last.json'', Debug = False, WebhookPost = ''http://hooks/post'',
      WebhookGet = []\<rparr>"

text \<open>The same configuration with no webhook: the goroutine of line 221 then makes no
  request.\<close>

definition quiet_config :: NestConfig where
  "quiet_config = example_config\<lparr>WebhookPost := []\<rparr>"

definition thermostat_json :: "rat \<Rightarrow> string \<Rightarrow> string \<Rightarrow> json" where
  "thermostat_json temperature mode st =
     JObject [(''devices'', JObject [(''thermostats'', JObject [(''abc'',
       JObject [(''ambient_temperature_f'', JNumber temperature),
                (''hvac_mode'', JString mode),
                (''hvac_state'', JString st)])])])]"

definition get_ok :: "rat \<Rightarrow> string \<Rightarrow> string \<Rightarrow> get_world" where
  "get_ok temperature mode st =
     \<lparr>reply = Response 200 (Bytes (Some (thermostat_json temperature mode st))),
      dump_ok = True\<rparr>"

definition put_ok :: "rat \<Rightarrow> string \<Rightarrow> string \<Rightarrow> put_world" where
  "put_ok temperature mode st =
     \<lparr>put_reply = Response 200 (Bytes None), confirm = get_ok temperature mode st\<rparr>"

definition put_failed :: "http_reply \<Rightarrow> put_world" where
  "put_failed r = \<lparr>put_reply = r, confirm = get_ok 72 ''cool'' ''cooling''\<rparr>"

text \<open>The state after a tick that saw the thermostat cooling at 70 degrees.\<close>

definition cooling_at_70 :: state where
  "cooling_at_70 = initial\<lparr>lastIsCooling := True, lastTemp := 70,
                           outputFile := [Header, SampleRow True 70]\<rparr>"

text \<open>A well-formed answer in which the thermostat \<open>abc\<close> is missing.\<close>

definition get_without_thermostat :: get_world where
  "get_without_thermostat =
     \<lparr>reply = Response 200 (Bytes (Some
        (JObject [(''devices'', JObject [(''thermostats'', JObject [])])]))),
      dump_ok = True\<rparr>"

text \<open>A tick whose read gets the given answer; no recovery follows a read that fails,
  so the script of writes is empty.\<close>

definition read_world :: "get_world \<Rightarrow> tick_world" where
  "read_world g = \<lparr>get = g, puts = [], hook_post = NoResponse, hook_get = NoResponse\<rparr>"

text \<open>A tick that reads 72 degrees while cooling, in a given mode, with a script of
  answers to the writes and one answer for both webhooks.\<close>

definition fault_world :: "string \<Rightarrow> put_world list \<Rightarrow> http_reply \<Rightarrow> tick_world" where
  "fault_world mode script hook =
     \<lparr>get = get_ok 72 mode ''cooling'', puts = script, hook_post = hook, hook_get = hook\<rparr>"

section \<open>Facts about the API client\<close>

lemma int_of_float64_numeral [simp]:
  "(numeral n :: int) < 2 ^ 63 \<Longrightarrow> int_of_float64 (numeral n) = numeral n"
  "int_of_float64 0 = 0"
  by (simp_all add: int_of_float64_def)

lemma nestGet_get_ok:
  "nestGet example_config (get_ok t m s) =
     Return (\<lparr>CurrentTemperature = int_of_float64 t, HvacMode = m,
              IsCooling = (s = ''cooling'')\<rparr>, None)"
  by (simp add: nestGet_def example_config_def get_ok_def thermostat_json_def
      read_thermostat_def)

lemma nestPut_put_ok:
  "nestPut example_config mode (put_ok t m s) =
     Return (\<lparr>CurrentTemperature = int_of_float64 t, HvacMode = m,
              IsCooling = (s = ''cooling'')\<rparr>, None)"
  by (simp add: nestPut_def put_ok_def nestGet_get_ok)

lemma nestGet_get_ok_quiet:
  "nestGet quiet_config (get_ok t m s) =
     Return (\<lparr>CurrentTemperature = int_of_float64 t, HvacMode = m,
              IsCooling = (s = ''cooling'')\<rparr>, None)"
  by (simp add: nestGet_def quiet_config_def example_config_def get_ok_def
      thermostat_json_def read_thermostat_def)

lemma nestPut_put_ok_quiet:
  "nestPut quiet_config mode (put_ok t m s) =
     Return (\<lparr>CurrentTemperature = int_of_float64 t, HvacMode = m,
              IsCooling = (s = ''cooling'')\<rparr>, None)"
  by (simp add: nestPut_def put_ok_def nestGet_get_ok_quiet)

lemma nestGet_without_thermostat:
  "nestGet quiet_config get_without_thermostat = Panic"
  by (simp add: nestGet_def read_thermostat_def get_without_thermostat_def quiet_config_def
      example_config_def)

lemma nestPut_put_failed:
  "nestPut config mode (put_failed NoResponse) = Panic"
  "nestPut config mode (put_failed (Response 500 Unreadable)) =
     Return (NestData_zero, Some ProblemGettingAnswer)"
  by (simp_all add: nestPut_def put_failed_def)

lemma nestGet_NoResponse:
  "nestGet config \<lparr>reply = NoResponse, dump_ok = ok\<rparr> =
     Return (NestData_zero, Some CouldNotCommunicate)"
  by (simp add: nestGet_def)

text \<open>A type assertion that succeeds yields a map that is not \<open>nil\<close>, so the walk
  either panics or arrives with nothing of the path left.\<close>

lemma navigate_Some:
  "navigate nav path = Return (dataNavigator, remaining) \<Longrightarrow> nav \<noteq> None \<Longrightarrow>
     dataNavigator \<noteq> None \<and> remaining = []"
proof (induction nav path rule: navigate.induct)
  case (1 path)
  then show ?case by simp
next
  case (2 m)
  then show ?case by simp
next
  case (3 m key path)
  show ?case
  proof (cases "map_of m key")
    case None
    with 3 show ?thesis by simp
  next
    case (Some v)
    show ?thesis
    proof (cases v)
      case (JObject kvs)
      with Some 3 show ?thesis by simp
    qed (use Some 3 in simp_all)
  qed
qed

lemma read_thermostat_no_error:
  assumes r: "read_thermostat config rawData = Return (d, err)"
  shows "err = None"
proof (cases rawData)
  case (JObject kvs)
  let ?path = "[''devices'', ''thermostats'', ThermostatID config]"
  show ?thesis
  proof (cases "navigate (Some kvs) ?path")
    case (Return p)
    obtain nav remaining where p: "p = (nav, remaining)" by (cases p)
    from navigate_Some[of "Some kvs" ?path nav remaining] Return p
    obtain m where "nav = Some m" "remaining = []" by auto
    with r JObject Return p show ?thesis
      by (cases "assert_float64 (map_of m ''ambient_temperature_f'')";
          cases "assert_string (map_of m ''hvac_mode'')";
          cases "assert_string (map_of m ''hvac_state'')")
         (simp_all add: read_thermostat_def)
  qed (use r JObject in \<open>simp_all add: read_thermostat_def\<close>)
qed (use r in \<open>simp_all add: read_thermostat_def\<close>)

text \<open>The error of line 346 is never returned: the test of line 345 cannot succeed.\<close>

lemma nestGet_never_not_found:
  "nestGet config w \<noteq> Return (d, Some CouldNotFindThermostat)"
  by (auto simp add: nestGet_def split: http_reply.splits body.splits if_splits option.splits
      dest: read_thermostat_no_error)

text \<open>An error always comes with the zero \<open>NestData\<close>.\<close>

lemma nestGet_error_zero:
  "nestGet config w = Return (d, Some e) \<Longrightarrow> d = NestData_zero"
  by (auto simp add: nestGet_def split: http_reply.splits body.splits if_splits option.splits
      dest: read_thermostat_no_error)

lemma nestPut_error_zero:
  "nestPut config hvacMode w = Return (d, Some e) \<Longrightarrow> d = NestData_zero"
  by (auto simp add: nestPut_def split: http_reply.splits if_splits dest: nestGet_error_zero)

lemma nestPut_NoResponse:
  "put_reply w = NoResponse \<Longrightarrow> nestPut config hvacMode w = Panic"
  by (simp add: nestPut_def)

section \<open>Facts about the retry loops\<close>

lemma logged_keeps [simp]:
  "lastTemp (logged ph m a e st) = lastTemp st"
  "lastIsCooling (logged ph m a e st) = lastIsCooling st"
  "writes (logged ph m a e st) = writes st"
  by (simp_all add: logged_def split: option.splits)

text \<open>A write that returns an error is logged and followed by the next attempt, as
  long as the requested mode is not the empty mode of the zero \<open>NestData\<close>.\<close>

lemma retry_loop_error_retried:
  assumes "HvacMode current \<noteq> hvacMode"
    and "nestPut config hvacMode w = Return (d, Some e)"
  shows "retry_loop ph config hvacMode current (w # ws) st =
           retry_loop ph config hvacMode NestData_zero ws
             (st\<lparr>writes := writes st @ [hvacMode],
                 outputFile := outputFile st @ [PutError ph e],
                 console := console st @ [ErrorTurning ph e]\<rparr>)"
  using assms nestPut_error_zero[OF assms(2)] by (simp add: logged_def)

lemma retry_loop_waits:
  assumes "HvacMode current \<noteq> hvacMode"
    and "\<forall>w\<in>set waits. \<exists>d. nestPut config hvacMode w = Return (d, None)
                               \<and> HvacMode d \<noteq> hvacMode"
    and "nestPut config hvacMode w = Return (d, None)" and "HvacMode d = hvacMode"
  shows "retry_loop ph config hvacMode current (waits @ w # rest) st =
           Return (d, rest,
             st\<lparr>writes := writes st @ replicate (Suc (length waits)) hvacMode,
                outputFile := outputFile st @ replicate (length waits) (Waiting ph)
                                @ [Turned ph],
                console := console st @ replicate (length waits) (WaitingOn ph)\<rparr>)"
  using assms
proof (induction waits arbitrary: current st)
  case Nil
  have "retry_loop ph config hvacMode d rest s = Return (d, rest, s)" for s
    using Nil.prems(4) by (cases rest) simp_all
  with Nil show ?case by (simp add: logged_def)
next
  case (Cons a waits)
  from Cons.prems(2) obtain d' where
    d': "nestPut config hvacMode a = Return (d', None)" "HvacMode d' \<noteq> hvacMode"
    by auto
  have rest: "\<forall>w\<in>set waits. \<exists>d. nestPut config hvacMode w = Return (d, None)
                                  \<and> HvacMode d \<noteq> hvacMode"
    using Cons.prems(2) by simp
  show ?case
    using Cons.prems(1) d'
    by (simp add: Cons.IH[OF d'(2) rest Cons.prems(3,4)] replicate_app_Cons_same logged_def)
qed

text \<open>What a loop that returns has done: it used a prefix of the script, made one write
  of the requested mode for each answer used, left the two loop variables alone, and
  ended on a \<open>NestData\<close> of the requested mode, the one its last \<open>nestPut\<close> returned.\<close>

lemma retry_loop_Return:
  "retry_loop ph config m current script st = Return (r, rest, st') \<Longrightarrow>
   HvacMode r = m \<and> lastTemp st' = lastTemp st \<and> lastIsCooling st' = lastIsCooling st \<and>
   (\<exists>used. script = used @ rest \<and> writes st' = writes st @ replicate (length used) m \<and>
      (used = [] \<longrightarrow> r = current \<and> st' = st) \<and>
      (used \<noteq> [] \<longrightarrow> (\<exists>e. nestPut config m (last used) = Return (r, e))))"
proof (induction script arbitrary: current st)
  case Nil
  then show ?case by (simp split: if_splits)
next
  case (Cons w ws)
  show ?case
  proof (cases "HvacMode current = m")
    case True
    with Cons.prems have "r = current" "rest = w # ws" "st' = st" by simp_all
    with True show ?thesis by simp
  next
    case False
    with Cons.prems obtain answer err where
      put: "nestPut config m w = Return (answer, err)" and
      rec: "retry_loop ph config m answer ws
              (logged ph m answer err (st\<lparr>writes := writes st @ [m]\<rparr>)) = Return (r, rest, st')"
      by (cases "nestPut config m w") auto
    from Cons.IH[OF rec] obtain used where
      u: "HvacMode r = m" "lastTemp st' = lastTemp st" "lastIsCooling st' = lastIsCooling st"
         "ws = used @ rest" "writes st' = (writes st @ [m]) @ replicate (length used) m"
         "used = [] \<longrightarrow> r = answer"
         "used \<noteq> [] \<longrightarrow> (\<exists>e. nestPut config m (last used) = Return (r, e))"
      by auto
    have "w # ws = (w # used) @ rest" using u(4) by simp
    moreover have "writes st' = writes st @ replicate (length (w # used)) m"
      using u(5) by (simp add: replicate_app_Cons_same)
    moreover have "\<exists>e. nestPut config m (last (w # used)) = Return (r, e)"
      using u(6,7) put by (cases "used = []") auto
    ultimately show ?thesis using u(1,2,3) by blast
  qed
qed

lemmas eval_defs =
  tick_def nestGet_get_ok nestPut_put_ok nestPut_put_failed nestGet_NoResponse
  restart_needed_def cooling_at_70_def initial_def recovery_def unrestarted_def
  logged_def Let_def fault_world_def

lemmas quiet_defs =
  tick_def nestGet_get_ok_quiet nestPut_put_ok_quiet nestPut_put_failed nestGet_NoResponse
  nestGet_without_thermostat restart_needed_def cooling_at_70_def initial_def recovery_def
  unrestarted_def logged_def Let_def fault_world_def read_world_def

text \<open>With no webhook configured the goroutine returns without a request, so a tick
  crashes only when its main goroutine panics.\<close>

lemma quiet_crashes:
  "crashes quiet_config w st \<longleftrightarrow> tick quiet_config w st = Panic"
  by (auto simp add: crashes_def spawned_def notify_def notify_one_def quiet_config_def
      example_config_def split: outcome.splits option.splits if_splits)

section \<open>Facts about the poll loop\<close>

text \<open>
  A tick whose read returns an error: one record is written and one message printed,
  the baseline and the writes are as before, no goroutine is started, the pass
  returns, and the loop runs the next tick from that state.
\<close>

lemma read_error_tick:
  assumes "nestGet config (get w) = Return (thermostatData, Some e)"
  shows "tick config w st =
           Return (st\<lparr>outputFile := outputFile st @ [GetError e],
                      console := console st @ [ErrorInGet e]\<rparr>)"
    and "spawned config w st = None"
    and "ticks config [w] st =
           Return (st\<lparr>outputFile := outputFile st @ [GetError e],
                      console := console st @ [ErrorInGet e]\<rparr>)"
    and "ticks config (w # w' # ws) st =
           bind_outcome
             (tick config w' (st\<lparr>outputFile := outputFile st @ [GetError e],
                                  console := console st @ [ErrorInGet e]\<rparr>))
             (ticks config ws)"
  using assms by (simp_all add: tick_def spawned_def)

section \<open>Facts about start-up\<close>

text \<open>No path through \<open>main\<close> calls \<open>os.Exit\<close>: whenever it ends before the loop, it
  ends by returning.\<close>

lemma main_ends_by_return:
  "main h args = Ended out e \<Longrightarrow> e = ReturnFromMain"
  by (auto simp add: main_def split: if_splits option.splits sum.splits)

section \<open>The claims\<close>

subsection \<open>C1: the fault detector\<close>

text \<open>
  Claim C1. For every pair of samples (previous, current), the detector decides that a
  restart is needed if and only if the previous sample reports cooling, the current
  sample reports cooling, and the current temperature is strictly greater than the
  previous one; in every other case it decides that no restart is needed.
\<close>

theorem restart_needed_iff:
  "restart_needed (IsCooling previous) (CurrentTemperature previous) current \<longleftrightarrow>
     IsCooling previous \<and> IsCooling current \<and>
     CurrentTemperature current > CurrentTemperature previous"
  by (auto simp add: restart_needed_def)

theorem restart_needed_iff_witness:
  "restart_needed True 70 \<lparr>CurrentTemperature = 72, HvacMode = ''cool'', IsCooling = True\<rparr>
   \<and> \<not> restart_needed True 72
         \<lparr>CurrentTemperature = 70, HvacMode = ''cool'', IsCooling = True\<rparr>"
  using restart_needed_iff
          [of "\<lparr>CurrentTemperature = 70, HvacMode = ''cool'', IsCooling = True\<rparr>"
              "\<lparr>CurrentTemperature = 72, HvacMode = ''cool'', IsCooling = True\<rparr>"]
        restart_needed_iff
          [of "\<lparr>CurrentTemperature = 72, HvacMode = ''cool'', IsCooling = True\<rparr>"
              "\<lparr>CurrentTemperature = 70, HvacMode = ''cool'', IsCooling = True\<rparr>"]
  by simp

subsection \<open>C2: the number of write attempts\<close>

text \<open>
  Claim C2 says that a retry loop whose write returns a sample of another mode N times
  and then a sample of the requested mode makes exactly N + 1 write attempts and logs
  N waiting records. Both loops start from a placeholder of mode \<open>"unrestarted"\<close>: when
  the mode to restore is \<open>"unrestarted"\<close> itself, the test of line 258 fails at once and
  the restart loop makes no write at all, although the next answer of the service
  would have confirmed the mode (N = 0, one attempt claimed).
\<close>

theorem retry_loop_unrestarted_counterexample:
  "nestPut example_config ''unrestarted'' (put_ok 71 ''unrestarted'' ''cooling'') =
     Return (\<lparr>CurrentTemperature = 71, HvacMode = ''unrestarted'', IsCooling = True\<rparr>, None)
   \<and> retry_loop TurnOn example_config ''unrestarted'' unrestarted
        [put_ok 71 ''unrestarted'' ''cooling''] initial =
       Return (unrestarted, [put_ok 71 ''unrestarted'' ''cooling''], initial)
   \<and> retry_loop TurnOn example_config ''unrestarted'' unrestarted
        [put_ok 71 ''unrestarted'' ''cooling''] initial \<noteq>
       Return (\<lparr>CurrentTemperature = 71, HvacMode = ''unrestarted'', IsCooling = True\<rparr>, [],
               initial\<lparr>writes := writes initial @ replicate (Suc 0) ''unrestarted'',
                        outputFile := outputFile initial @ [Turned TurnOn]\<rparr>)"
  by (simp add: nestPut_put_ok unrestarted_def initial_def)

text \<open>
  Claim C2, amended. For every N and every requested mode other than \<open>"unrestarted"\<close>:
  if the first N answers make \<open>nestPut\<close> return a sample of another mode and the next
  one a sample of the requested mode, then a retry loop (the shutoff loop, which asks
  for \<open>"off"\<close>, or the restart loop) returns that last sample, has used exactly N + 1
  answers and made exactly N + 1 writes of the requested mode, and has logged N waiting
  records followed by the confirmation.
\<close>

theorem confirmed_write_attempts:
  assumes "hvacMode \<noteq> ''unrestarted''"
    and "\<forall>w\<in>set waits. \<exists>d. nestPut config hvacMode w = Return (d, None)
                               \<and> HvacMode d \<noteq> hvacMode"
    and "nestPut config hvacMode w = Return (d, None)" and "HvacMode d = hvacMode"
  shows "retry_loop ph config hvacMode unrestarted (waits @ w # rest) st =
           Return (d, rest,
             st\<lparr>writes := writes st @ replicate (length waits + 1) hvacMode,
                outputFile := outputFile st @ replicate (length waits) (Waiting ph)
                                @ [Turned ph],
                console := console st @ replicate (length waits) (WaitingOn ph)\<rparr>)"
proof -
  have "HvacMode unrestarted \<noteq> hvacMode"
    using assms(1) by (auto simp add: unrestarted_def)
  from retry_loop_waits[OF this assms(2,3,4)] show ?thesis by simp
qed

theorem confirmed_write_attempts_witness:
  "retry_loop TurnOn example_config ''cool'' unrestarted
     ([put_ok 72 ''off'' ''off'', put_ok 72 ''off'' ''off'']
        @ put_ok 71 ''cool'' ''cooling'' # [put_ok 70 ''cool'' ''cooling''])
     initial =
   Return (\<lparr>CurrentTemperature = 71, HvacMode = ''cool'', IsCooling = True\<rparr>,
           [put_ok 70 ''cool'' ''cooling''],
           \<lparr>lastTemp = 0, lastIsCooling = False,
            outputFile = [Header, Waiting TurnOn, Waiting TurnOn, Turned TurnOn],
            console = [WaitingOn TurnOn, WaitingOn TurnOn],
            writes = [''cool'', ''cool'', ''cool'']\<rparr>)"
proof -
  have a: "''cool'' \<noteq> ''unrestarted''" by simp
  have b: "\<forall>w\<in>set [put_ok 72 ''off'' ''off'', put_ok 72 ''off'' ''off''].
             \<exists>d. nestPut example_config ''cool'' w = Return (d, None)
                 \<and> HvacMode d \<noteq> ''cool''"
    by (simp add: nestPut_put_ok)
  have c: "nestPut example_config ''cool'' (put_ok 71 ''cool'' ''cooling'') =
             Return (\<lparr>CurrentTemperature = 71, HvacMode = ''cool'', IsCooling = True\<rparr>, None)"
    by (simp add: nestPut_put_ok)
  show ?thesis
    using confirmed_write_attempts
            [OF a b c, of TurnOn "[put_ok 70 ''cool'' ''cooling'']" initial]
    by (simp add: initial_def numeral_3_eq_3 numeral_2_eq_2)
qed

subsection \<open>C3: what the restart phase writes, and the new baseline\<close>

text \<open>
  Claim C3 says that the restart phase writes the mode of the sample that showed the
  fault and that, when the sequence completes, the baseline is the cooling flag and
  temperature of the sample returned by the last successful write. Two sequences
  complete otherwise, here with no webhook configured, so that nothing but the main
  goroutine acts and the process does not crash. When the mode to restore is
  \<open>"unrestarted"\<close>, the restart phase writes nothing and the baseline is taken from the
  placeholder. When the mode to restore is empty, a write that fails returns the zero
  \<open>NestData\<close>, whose mode is empty too, so the loop ends on the failure. In both the
  baseline is (false, 0), while the last successful write, the one that turned the
  system off, returned 72 degrees.
\<close>

theorem recovery_baseline_counterexample:
  "nestPut quiet_config ''off'' (put_ok 72 ''off'' ''off'') =
     Return (\<lparr>CurrentTemperature = 72, HvacMode = ''off'', IsCooling = False\<rparr>, None)
   \<and> tick quiet_config
        (fault_world ''unrestarted''
           [put_ok 72 ''off'' ''off'', put_ok 71 ''unrestarted'' ''cooling'']
           (Response 200 (Bytes None)))
        cooling_at_70 =
       Return \<lparr>lastTemp = 0, lastIsCooling = False,
               outputFile = [Header, SampleRow True 70, SampleRow True 72, Restarting,
                             Turned TurnOff],
               console = [], writes = [''off'']\<rparr>
   \<and> \<not> crashes quiet_config
        (fault_world ''unrestarted''
           [put_ok 72 ''off'' ''off'', put_ok 71 ''unrestarted'' ''cooling'']
           (Response 200 (Bytes None)))
        cooling_at_70
   \<and> tick quiet_config
        (fault_world [] [put_ok 72 ''off'' ''off'', put_failed (Response 500 Unreadable)]
           (Response 200 (Bytes None)))
        cooling_at_70 =
       Return \<lparr>lastTemp = 0, lastIsCooling = False,
               outputFile = [Header, SampleRow True 70, SampleRow True 72, Restarting,
                             Turned TurnOff, PutError TurnOn ProblemGettingAnswer],
               console = [ErrorTurning TurnOn ProblemGettingAnswer],
               writes = [''off'', []]\<rparr>
   \<and> \<not> crashes quiet_config
        (fault_world [] [put_ok 72 ''off'' ''off'', put_failed (Response 500 Unreadable)]
           (Response 200 (Bytes None)))
        cooling_at_70"
  by (simp add: quiet_crashes) (simp add: quiet_defs NestData_zero_def)

text \<open>
  Claim C3, amended. In every recovery sequence that restores a mode which is neither
  empty nor \<open>"unrestarted"\<close>: when the tick completes, the writes it made are some
  writes of \<open>"off"\<close> (at least one) followed by writes of exactly the mode of the sample
  that showed the fault (at least one); the last of them succeeded and returned a
  sample of that mode; and the baseline carried into the next tick is the cooling flag
  and the temperature of that sample.
\<close>

theorem recovery_baseline:
  assumes get: "nestGet config (get w) = Return (thermostatData, None)"
    and fault: "restart_needed (lastIsCooling st) (lastTemp st) thermostatData"
    and m1: "HvacMode thermostatData \<noteq> ''unrestarted''"
    and m2: "HvacMode thermostatData \<noteq> []"
    and fin: "tick config w st = Return st'"
  shows "\<exists>restartData confirmed before after offs ons.
           puts w = before @ confirmed # after \<and>
           nestPut config (HvacMode thermostatData) confirmed = Return (restartData, None) \<and>
           HvacMode restartData = HvacMode thermostatData \<and>
           lastIsCooling st' = IsCooling restartData \<and>
           lastTemp st' = CurrentTemperature restartData \<and>
           0 < offs \<and> offs + ons = length before \<and>
           writes st' = writes st @ replicate offs ''off''
                          @ replicate (Suc ons) (HvacMode thermostatData)"
proof -
  let ?m = "HvacMode thermostatData"
  let ?st1 = "st\<lparr>outputFile := outputFile st @
                 [SampleRow (IsCooling thermostatData) (CurrentTemperature thermostatData),
                  Restarting]\<rparr>"
  from get fault fin have rec: "recovery config thermostatData (puts w)
      (st\<lparr>outputFile := outputFile st @
          [SampleRow (IsCooling thermostatData) (CurrentTemperature thermostatData)]\<rparr>)
      = Return st'"
    by (simp add: tick_def)
  then obtain shutoffData script1 st2 where
    off: "retry_loop TurnOff config ''off'' unrestarted (puts w) ?st1
            = Return (shutoffData, script1, st2)"
    by (cases "retry_loop TurnOff config ''off'' unrestarted (puts w) ?st1")
       (auto simp add: recovery_def)
  with rec obtain restartData script2 st3 where
    on: "retry_loop TurnOn config ?m unrestarted script1 st2
           = Return (restartData, script2, st3)"
    and st': "st' = st3\<lparr>lastIsCooling := IsCooling restartData,
                          lastTemp := CurrentTemperature restartData\<rparr>"
    by (cases "retry_loop TurnOn config ?m unrestarted script1 st2")
       (auto simp add: recovery_def)
  from retry_loop_Return[OF off] obtain used1 where
    u1: "puts w = used1 @ script1"
        "writes st2 = writes ?st1 @ replicate (length used1) ''off''"
        "used1 = [] \<longrightarrow> shutoffData = unrestarted" "HvacMode shutoffData = ''off''"
    by auto
  have ne1: "used1 \<noteq> []" using u1(3,4) by (auto simp add: unrestarted_def)
  from retry_loop_Return[OF on] obtain used2 where
    u2: "script1 = used2 @ script2"
        "writes st3 = writes st2 @ replicate (length used2) ?m"
        "used2 = [] \<longrightarrow> restartData = unrestarted" "HvacMode restartData = ?m"
        "used2 \<noteq> [] \<longrightarrow> (\<exists>e. nestPut config ?m (last used2) = Return (restartData, e))"
    by auto
  have ne2: "used2 \<noteq> []" using u2(3,4) m1 by (auto simp add: unrestarted_def)
  then obtain e where e: "nestPut config ?m (last used2) = Return (restartData, e)"
    using u2(5) by auto
  have none: "e = None"
  proof (cases e)
    case (Some x)
    with e have "restartData = NestData_zero" by (simp add: nestPut_error_zero)
    with u2(4) m2 show ?thesis by (simp add: NestData_zero_def)
  qed simp
  let ?before = "used1 @ butlast used2"
  have a: "puts w = ?before @ last used2 # script2"
    using u1(1) u2(1) ne2 by simp
  have b: "length used1 + (length used2 - 1) = length ?before" by simp
  have c: "replicate (length used2) ?m = replicate (Suc (length used2 - 1)) ?m"
    using ne2 by (cases used2) simp_all
  have d: "writes st' = writes st @ replicate (length used1) ''off''
                          @ replicate (Suc (length used2 - 1)) ?m"
    using st' u1(2) u2(2) c by simp
  have "0 < length used1" using ne1 by simp
  with a b d e none u2(4) st' show ?thesis
    by (intro exI[of _ restartData] exI[of _ "last used2"] exI[of _ ?before]
              exI[of _ script2] exI[of _ "length used1"] exI[of _ "length used2 - 1"])
       simp
qed

theorem recovery_baseline_witness:
  "\<not> crashes quiet_config
       (fault_world ''cool''
          [put_ok 72 ''cool'' ''cooling'', put_ok 72 ''off'' ''off'',
           put_ok 71 ''cool'' ''cooling''] (Response 200 (Bytes None)))
       cooling_at_70
   \<and> tick quiet_config
       (fault_world ''cool''
          [put_ok 72 ''cool'' ''cooling'', put_ok 72 ''off'' ''off'',
           put_ok 71 ''cool'' ''cooling''] (Response 200 (Bytes None)))
       cooling_at_70 =
      Return \<lparr>lastTemp = 71, lastIsCooling = True,
              outputFile = [Header, SampleRow True 70, SampleRow True 72, Restarting,
                            Waiting TurnOff, Turned TurnOff, Turned TurnOn],
              console = [WaitingOn TurnOff], writes = [''off'', ''off'', ''cool'']\<rparr>
   \<and> (\<exists>restartData confirmed before after offs ons.
        [put_ok 72 ''cool'' ''cooling'', put_ok 72 ''off'' ''off'',
         put_ok 71 ''cool'' ''cooling''] = before @ confirmed # after \<and>
        nestPut quiet_config ''cool'' confirmed = Return (restartData, None) \<and>
        HvacMode restartData = ''cool'' \<and>
        True = IsCooling restartData \<and>
        71 = CurrentTemperature restartData \<and>
        0 < offs \<and> offs + ons = length before \<and>
        [''off'', ''off'', ''cool''] = replicate offs ''off'' @ replicate (Suc ons) ''cool'')"
proof -
  let ?w = "fault_world ''cool''
              [put_ok 72 ''cool'' ''cooling'', put_ok 72 ''off'' ''off'',
               put_ok 71 ''cool'' ''cooling''] (Response 200 (Bytes None))"
  let ?d = "\<lparr>CurrentTemperature = 72, HvacMode = ''cool'', IsCooling = True\<rparr>"
  let ?st' = "\<lparr>lastTemp = 71, lastIsCooling = True,
               outputFile = [Header, SampleRow True 70, SampleRow True 72, Restarting,
                             Waiting TurnOff, Turned TurnOff, Turned TurnOn],
               console = [WaitingOn TurnOff], writes = [''off'', ''off'', ''cool'']\<rparr>"
  have g: "nestGet quiet_config (get ?w) = Return (?d, None)"
    by (simp add: fault_world_def nestGet_get_ok_quiet)
  have f: "restart_needed (lastIsCooling cooling_at_70) (lastTemp cooling_at_70) ?d"
    by (simp add: restart_needed_def cooling_at_70_def)
  have m1: "HvacMode ?d \<noteq> ''unrestarted''" and m2: "HvacMode ?d \<noteq> []" by simp_all
  have t: "tick quiet_config ?w cooling_at_70 = Return ?st'"
    by (simp add: quiet_defs)
  have c: "\<not> crashes quiet_config ?w cooling_at_70"
    by (simp add: quiet_crashes t)
  have e: "\<exists>restartData confirmed before after offs ons.
        [put_ok 72 ''cool'' ''cooling'', put_ok 72 ''off'' ''off'',
         put_ok 71 ''cool'' ''cooling''] = before @ confirmed # after \<and>
        nestPut quiet_config ''cool'' confirmed = Return (restartData, None) \<and>
        HvacMode restartData = ''cool'' \<and>
        True = IsCooling restartData \<and>
        71 = CurrentTemperature restartData \<and>
        0 < offs \<and> offs + ons = length before \<and>
        [''off'', ''off'', ''cool''] = replicate offs ''off'' @ replicate (Suc ons) ''cool''"
    using recovery_baseline[OF g f m1 m2 t]
    by (simp add: fault_world_def cooling_at_70_def initial_def)
  from c t e show ?thesis by blast
qed

subsection \<open>C4: a write that fails at the network level\<close>

text \<open>
  Claim C4 says that a write attempt that fails with a transport or protocol error is
  logged and retried, and that the retry loop never crashes because of it. Evaluated
  here: the first write of a recovery gets no answer from the network. \<open>nestPut\<close>
  panics on line 364 before it can return the error of line 366, so the tick panics
  although the next two answers of the script would have completed the sequence.
  \<open>nestGet\<close>, which tests \<open>err\<close> first (lines 312-319), returns the error for the same
  answer.
\<close>

theorem write_transport_failure_panics:
  "nestPut example_config ''off'' (put_failed NoResponse) = Panic
   \<and> retry_loop TurnOff example_config ''off'' unrestarted
        [put_failed NoResponse, put_ok 72 ''off'' ''off'', put_ok 71 ''cool'' ''cooling'']
        cooling_at_70 = Panic
   \<and> tick example_config
        (fault_world ''cool''
           [put_failed NoResponse, put_ok 72 ''off'' ''off'', put_ok 71 ''cool'' ''cooling'']
           (Response 200 Unreadable))
        cooling_at_70 = Panic
   \<and> nestGet example_config \<lparr>reply = NoResponse, dump_ok = True\<rparr> =
       Return (NestData_zero, Some CouldNotCommunicate)"
  by (simp add: eval_defs)

subsection \<open>C5: a webhook that fails at the network level\<close>

text \<open>
  Claim C5 says that a failing webhook does not block, abort or crash the retry loops.
  Evaluated here: a recovery whose POST webhook gets no answer from the network. The
  main goroutine alone would complete the sequence, but \<open>webhook\<close> panics on line 382
  before the test of line 383, inside the goroutine started on line 221, and a panic
  in any goroutine ends the process.
\<close>

theorem webhook_transport_failure_panics:
  "webhook POST (WebhookPost example_config) NoResponse = Panic
   \<and> tick example_config
        (fault_world ''cool'' [put_ok 72 ''off'' ''off'', put_ok 71 ''cool'' ''cooling'']
           NoResponse)
        cooling_at_70 =
       Return \<lparr>lastTemp = 71, lastIsCooling = True,
               outputFile = [Header, SampleRow True 70, SampleRow True 72, Restarting,
                             Turned TurnOff, Turned TurnOn],
               console = [], writes = [''off'', ''cool'']\<rparr>
   \<and> spawned example_config
        (fault_world ''cool'' [put_ok 72 ''off'' ''off'', put_ok 71 ''cool'' ''cooling'']
           NoResponse)
        cooling_at_70 = Some Panic
   \<and> crashes example_config
        (fault_world ''cool'' [put_ok 72 ''off'' ''off'', put_ok 71 ''cool'' ''cooling'']
           NoResponse)
        cooling_at_70"
  by (simp add: eval_defs crashes_def spawned_def notify_def notify_one_def webhook_def
      example_config_def[THEN arg_cong[of _ _ WebhookPost]])

subsection \<open>C6: a response without the thermostat, or with a field of another type\<close>

text \<open>
  Claim C6 says that \<open>nestGet\<close> returns a schema error when the response lacks the
  device id under devices, thermostats, or when one of the three fields is missing or
  of the wrong type. Evaluated here: a well-formed response with no thermostat
  \<open>abc\<close>, and one whose temperature is a string. The type assertions of lines 342 and
  349 panic in both; the error of line 346 is out of reach
  (\<open>nestGet_never_not_found\<close>).
\<close>

theorem read_schema_mismatch_panics:
  "nestGet example_config
     \<lparr>reply = Response 200 (Bytes (Some
        (JObject [(''devices'', JObject [(''thermostats'', JObject [])])]))),
      dump_ok = True\<rparr> = Panic
   \<and> nestGet example_config
       \<lparr>reply = Response 200 (Bytes (Some
          (JObject [(''devices'', JObject [(''thermostats'', JObject [(''abc'',
             JObject [(''ambient_temperature_f'', JString ''72''),
                      (''hvac_mode'', JString ''cool''),
                      (''hvac_state'', JString ''cooling'')])])])]))),
        dump_ok = True\<rparr> = Panic"
  by (simp add: nestGet_def read_thermostat_def example_config_def)

subsection \<open>C7: the exit status after a configuration error\<close>

text \<open>
  Claim C7 says that a configuration error found before the loop ends the process with
  a status other than zero. Evaluated here: a command line with a token and no
  thermostat id, whatever the library functions other than \<open>strings.ToLower\<close> do.
  \<open>main\<close> prints the message with \<open>printError\<close> and returns (lines 95-96), so the loop
  is not entered and the exit status is 0; \<open>printErrorExit\<close>, which would give status
  1, is never called (\<open>main_ends_by_return\<close>).
\<close>

theorem config_error_exit_status:
  "main (h\<lparr>ToLower := ascii_lower\<rparr>) [''nest'', ''--token'', ''secret''] =
     Ended [''Must provide a thermostat ID''] ReturnFromMain
   \<and> exit_status ReturnFromMain = 0
   \<and> printErrorExit ''Must provide a thermostat ID'' =
       Ended [''Must provide a thermostat ID''] (OsExit 1)"
  by (simp add: main_def settings_def default_config_def printError_def printErrorExit_def
      ascii_lower_def allowedSingles_def argTranslate_def
      Token_cmd_def ThermostatID_cmd_def Config_cmd_def)

subsection \<open>C8: a tick whose read fails\<close>

text \<open>
  Claim C8 says that on every tick whose read fails one error record is logged, the
  baseline is kept, no recovery is entered and the loop goes on with the next tick.
  Evaluated here: a tick whose read gets a well-formed answer without the thermostat,
  followed by a tick whose read would succeed. The read fails by the panic of line
  342, not by the error of line 346, so the tick and the loop panic: nothing is
  logged and the second tick never runs. Beside it, the same two ticks with a read
  that fails at the network level, where the error is returned: one record is logged,
  the baseline is kept and the second tick runs
  (\<open>read_error_tick\<close> for every read that returns its error).
\<close>

theorem read_schema_failure_tick_panics:
  "nestGet quiet_config get_without_thermostat = Panic
   \<and> tick quiet_config (read_world get_without_thermostat) cooling_at_70 = Panic
   \<and> ticks quiet_config
        [read_world get_without_thermostat, read_world (get_ok 69 ''cool'' ''cooling'')]
        cooling_at_70 = Panic
   \<and> ticks quiet_config
        [read_world \<lparr>reply = NoResponse, dump_ok = True\<rparr>,
         read_world (get_ok 69 ''cool'' ''cooling'')]
        cooling_at_70 =
       Return \<lparr>lastTemp = 69, lastIsCooling = True,
               outputFile = [Header, SampleRow True 70, GetError CouldNotCommunicate,
                             SampleRow True 69],
               console = [ErrorInGet CouldNotCommunicate], writes = []\<rparr>"
  by (simp add: quiet_defs)

subsection \<open>C9: a tick without a fault\<close>

text \<open>
  Claim C9. On every tick whose read succeeds and on which the detector does not fire,
  the tick logs the sample and replaces the baseline by it: afterwards
  \<open>lastIsCooling\<close> is the cooling flag of the sample and \<open>lastTemp\<close> its temperature.
\<close>

theorem advance_baseline:
  assumes "nestGet config (get w) = Return (thermostatData, None)"
    and "\<not> restart_needed (lastIsCooling st) (lastTemp st) thermostatData"
  shows "tick config w st =
           Return (st\<lparr>outputFile := outputFile st @
                         [SampleRow (IsCooling thermostatData)
                                    (CurrentTemperature thermostatData)],
                      lastIsCooling := IsCooling thermostatData,
                      lastTemp := CurrentTemperature thermostatData\<rparr>)
         \<and> (\<forall>st'. tick config w st = Return st' \<longrightarrow>
                lastIsCooling st' = IsCooling thermostatData \<and>
                lastTemp st' = CurrentTemperature thermostatData)"
  using assms by (auto simp add: tick_def)

theorem advance_baseline_witness:
  "nestGet example_config (get (fault_world ''cool'' [] NoResponse)) =
     Return (\<lparr>CurrentTemperature = 72, HvacMode = ''cool'', IsCooling = True\<rparr>, None)
   \<and> \<not> restart_needed (lastIsCooling (cooling_at_70\<lparr>lastTemp := 72\<rparr>))
         (lastTemp (cooling_at_70\<lparr>lastTemp := 72\<rparr>))
         \<lparr>CurrentTemperature = 72, HvacMode = ''cool'', IsCooling = True\<rparr>
   \<and> tick example_config (fault_world ''cool'' [] NoResponse)
        (cooling_at_70\<lparr>lastTemp := 72\<rparr>) =
       Return \<lparr>lastTemp = 72, lastIsCooling = True,
               outputFile = [Header, SampleRow True 70, SampleRow True 72],
               console = [], writes = []\<rparr>"
proof -
  let ?d = "\<lparr>CurrentTemperature = 72, HvacMode = ''cool'', IsCooling = True\<rparr>"
  let ?st = "cooling_at_70\<lparr>lastTemp := 72\<rparr>"
  have g: "nestGet example_config (get (fault_world ''cool'' [] NoResponse)) =
             Return (?d, None)"
    by (simp add: fault_world_def nestGet_get_ok)
  have n: "\<not> restart_needed (lastIsCooling ?st) (lastTemp ?st) ?d"
    by (simp add: restart_needed_def cooling_at_70_def)
  show ?thesis using advance_baseline[OF g n] g n
    by (simp add: cooling_at_70_def initial_def)
qed

subsection \<open>C10: the first tick\<close>

text \<open>
  Claim C10. On the first tick of the poll loop no recovery sequence is entered,
  whatever the read returns: with the baseline seeded to (false, 0) the detector is
  false for every sample, no goroutine is started, and the first tick only logs the
  read error or logs the sample and takes it as the baseline.
\<close>

theorem first_tick_no_recovery:
  "\<not> restart_needed (lastIsCooling initial) (lastTemp initial) thermostatData
   \<and> spawned config w initial = None
   \<and> loop config (w # ws) = bind_outcome (tick config w initial) (ticks config ws)
   \<and> tick config w initial =
       bind_outcome (nestGet config (get w)) (\<lambda>(thermostatData, err).
         case err of
           Some e \<Rightarrow>
             Return (initial\<lparr>outputFile := [Header, GetError e],
                            console := [ErrorInGet e]\<rparr>)
         | None \<Rightarrow>
             Return (initial\<lparr>outputFile :=
                              [Header, SampleRow (IsCooling thermostatData)
                                                 (CurrentTemperature thermostatData)],
                            lastIsCooling := IsCooling thermostatData,
                            lastTemp := CurrentTemperature thermostatData\<rparr>))"
proof (intro conjI)
  show "\<not> restart_needed (lastIsCooling initial) (lastTemp initial) thermostatData"
    by (simp add: restart_needed_def initial_def)
  show "spawned config w initial = None"
    by (auto simp add: spawned_def restart_needed_def initial_def
        split: outcome.splits option.splits)
  show "loop config (w # ws) = bind_outcome (tick config w initial) (ticks config ws)"
    by (simp add: loop_def)
  show "tick config w initial =
       bind_outcome (nestGet config (get w)) (\<lambda>(thermostatData, err).
         case err of
           Some e \<Rightarrow>
             Return (initial\<lparr>outputFile := [Header, GetError e],
                            console := [ErrorInGet e]\<rparr>)
         | None \<Rightarrow>
             Return (initial\<lparr>outputFile :=
                              [Header, SampleRow (IsCooling thermostatData)
                                                 (CurrentTemperature thermostatData)],
                            lastIsCooling := IsCooling thermostatData,
                            lastTemp := CurrentTemperature thermostatData\<rparr>))"
    by (cases "nestGet config (get w)")
       (auto simp add: tick_def restart_needed_def initial_def split: option.splits)
qed

theorem first_tick_no_recovery_witness:
  "loop example_config
     [fault_world ''cool'' [put_ok 72 ''off'' ''off'', put_ok 71 ''cool'' ''cooling'']
        NoResponse] =
   Return \<lparr>lastTemp = 72, lastIsCooling = True,
           outputFile = [Header, SampleRow True 72], console = [], writes = []\<rparr>"
  using first_tick_no_recovery
          [of "\<lparr>CurrentTemperature = 72, HvacMode = ''cool'', IsCooling = True\<rparr>"
              example_config
              "fault_world ''cool'' [put_ok 72 ''off'' ''off'', put_ok 71 ''cool'' ''cooling'']
                 NoResponse" "[]"]
  by (simp add: nestGet_get_ok fault_world_def initial_def)

end
